theory Spec2Isabelle
  imports Complex_Main "HOL-Library.Word"
begin

section \<open>Values of the JavaScript program\<close>

text \<open>
  A JavaScript string is a sequence of UTF-16 code units.  A request field is a value of
  a parsed JSON body: \<open>JUndefined\<close> is an absent field, \<open>JNum x\<close> carries the value of the
  parsed double (JSON has no NaN), \<open>JObject\<close> is any array or object.
\<close>

type_synonym js_string = "16 word list"

datatype json = JUndefined | JNull | JBool bool | JNum real | JStr js_string | JObject

text \<open>\<open>!v\<close> is \<open>\<not> truthy v\<close>; \<open>is_string v\<close> is \<open>typeof v === 'string'\<close>.\<close>

fun truthy :: "json \<Rightarrow> bool" where
  "truthy JUndefined = False"
| "truthy JNull = False"
| "truthy (JBool b) = b"
| "truthy (JNum x) = (x \<noteq> 0)"
| "truthy (JStr s) = (s \<noteq> [])"
| "truthy JObject = True"

fun is_string :: "json \<Rightarrow> bool" where
  "is_string (JStr s) = True"
| "is_string v = False"

text \<open>
  \<open>String.prototype.trim\<close> removes the WhiteSpace and LineTerminator code points from
  both ends; all of them lie in the Basic Multilingual Plane, so each is one code unit.
\<close>

definition is_ws :: "16 word \<Rightarrow> bool" where
  "is_ws c = (c \<in> set [9, 10, 11, 12, 13, 32, 160, 5760, 8192, 8193, 8194, 8195, 8196,
       8197, 8198, 8199, 8200, 8201, 8202, 8232, 8233, 8239, 8287, 12288, 65279])"

definition trim :: "js_string \<Rightarrow> js_string" where
  "trim s = rev (dropWhile is_ws (rev (dropWhile is_ws s)))"

section \<open>Sessions and the session store\<close>

text \<open>
  \<open>ChatMessageHistory\<close> of LangChain is an in-memory list of messages with
  \<open>getMessages\<close>, \<open>addMessages\<close> and \<open>clear\<close>.  Dates are milliseconds since the
  epoch.  The store is the global \<open>Map\<close> named \<open>sessions\<close>; its keys are strings.
\<close>

datatype message = SystemMessage js_string | HumanMessage js_string | AIMessage js_string

record session =
  messageHistory :: "message list"
  systemPrompt :: js_string
  temperature :: real
  createdAt :: int
  lastActivity :: int

type_synonym sessions = "js_string \<rightharpoonup> session"

text \<open>The built-in system prompt (a Portuguese sentence of 39 characters, three of them
  accented), as code units.\<close>

definition DEFAULT_SYSTEM_PROMPT :: js_string where
  "DEFAULT_SYSTEM_PROMPT = [86, 111, 99, 234, 32, 233, 32, 117, 109, 32, 97, 115, 115, 105,
     115, 116, 101, 110, 116, 101, 32, 250, 116, 105, 108, 32, 101, 32, 112, 114, 101, 115,
     116, 97, 116, 105, 118, 111, 46]"

text \<open>
  The object literal stored for a new session (in \<open>getMessageHistory\<close> and in
  \<open>POST /api/session/new\<close>).  A synchronous step of a handler reads the clock at one
  instant \<open>now\<close>.
\<close>

definition new_session_object :: "int \<Rightarrow> session" where
  "new_session_object now =
     \<lparr>messageHistory = [], systemPrompt = DEFAULT_SYSTEM_PROMPT, temperature = 0.5,
      createdAt = now, lastActivity = now\<rparr>"

text \<open>\<open>getMessageHistory\<close>: returns the updated store and the messages of the history
  object it hands out.\<close>

definition getMessageHistory :: "int \<Rightarrow> js_string \<Rightarrow> sessions \<Rightarrow> sessions \<times> message list" where
  "getMessageHistory now sessionId sessions =
     (case sessions sessionId of
        None \<Rightarrow> (sessions(sessionId \<mapsto> new_session_object now), [])
      | Some s \<Rightarrow> (sessions(sessionId \<mapsto> s\<lparr>lastActivity := now\<rparr>), messageHistory s))"

text \<open>\<open>history.addMessages\<close> on the history object of a stored session.\<close>

definition addMessages :: "js_string \<Rightarrow> message list \<Rightarrow> sessions \<Rightarrow> sessions" where
  "addMessages sessionId msgs sessions =
     (case sessions sessionId of
        None \<Rightarrow> sessions
      | Some s \<Rightarrow> sessions(sessionId \<mapsto> s\<lparr>messageHistory := messageHistory s @ msgs\<rparr>))"

section \<open>The chain: prompt template, model, message history\<close>

text \<open>
  \<open>ChatOpenAI\<close> is configured by its temperature and \<open>maxTokens\<close> (the model name is the
  same everywhere).  The backend is a parameter: given the model and the prompt it
  returns the content of the reply, or \<open>None\<close> when the call throws.
\<close>

datatype chat_model = ChatOpenAI (model_temperature: real) (maxTokens: "nat option")

type_synonym backend = "chat_model \<Rightarrow> message list \<Rightarrow> js_string option"

type_synonym backend_call = "chat_model \<times> message list"

definition model :: chat_model where
  "model = ChatOpenAI 0.5 (Some 2000)"

text \<open>The template \<open>[['system', '{system_prompt}'], MessagesPlaceholder('chat_history'),
  ['human', '{input}']]\<close>, formatted.\<close>

definition prompt :: "js_string \<Rightarrow> message list \<Rightarrow> js_string \<Rightarrow> message list" where
  "prompt system_prompt chat_history input =
     SystemMessage system_prompt # chat_history @ [HumanMessage input]"

text \<open>
  \<open>RunnableWithMessageHistory.invoke\<close> of LangChain around \<open>prompt.pipe(m)\<close>: it fetches
  the history with \<open>getMessageHistory\<close>, runs the chain on the stored messages, and when
  the chain ends without error adds the input as a human message and the output as an AI
  message to the history.  When the model throws nothing is added.  The result is the
  store, the content of the reply (if any) and the calls made to the backend.
\<close>

definition invoke ::
  "backend \<Rightarrow> chat_model \<Rightarrow> int \<Rightarrow> js_string \<Rightarrow> js_string \<Rightarrow> js_string \<Rightarrow> sessions
     \<Rightarrow> sessions \<times> js_string option \<times> backend_call list" where
  "invoke backend m now sessionId input system_prompt sessions =
     (let (sessions1, chat_history) = getMessageHistory now sessionId sessions;
          p = prompt system_prompt chat_history input
      in case backend m p of
           None \<Rightarrow> (sessions1, None, [(m, p)])
         | Some content \<Rightarrow>
             (addMessages sessionId [HumanMessage input, AIMessage content] sessions1,
              Some content, [(m, p)]))"

section \<open>Requests and responses\<close>

text \<open>
  The error texts of the handlers, by the place that sends them, and the responses:
  a JSON body of a handler with status 200, or an error with status 400, 404 or 500.
\<close>

datatype error_text =
    SystemPromptMustBeString
  | TemperatureMustBeNumberBetween0And2
  | SessionIdRequired
  | MessageMustNotBeEmpty
  | SessionNotFoundOrExpired
  | SessionNotFound
  | ErrorProcessingMessage

datatype response =
    NewSessionReply js_string
  | ExistsReply js_string int int nat
  | NotExistsReply js_string
  | ChatReply js_string js_string int
  | HistoryReply js_string nat "message list" js_string real int int
  | ClearReply js_string
  | ConfigReply js_string js_string real
  | DeleteReply js_string
  | Status400 error_text
  | Status404 error_text
  | Status500 error_text

text \<open>The fields \<open>sessionId\<close>, \<open>message\<close>, \<open>temperature\<close>, \<open>systemPrompt\<close> of the body of
  \<open>POST /api/chat\<close>.\<close>

record chat_body =
  b_sessionId :: json
  b_message :: json
  b_temperature :: json
  b_systemPrompt :: json

text \<open>The test \<open>typeof temperature !== 'number' || temperature < 0 || temperature > 2\<close>.\<close>

fun temperature_rejected :: "json \<Rightarrow> bool" where
  "temperature_rejected (JNum t) = (t < 0 \<or> t > 2)"
| "temperature_rejected v = True"

section \<open>The handlers\<close>

text \<open>
  Each handler maps the store to the new store and the response.  \<open>now\<close> is the clock at
  the time of the request; a handler whose code never reads the clock ignores it.
\<close>

text \<open>\<open>POST /api/session/new\<close>; \<open>sessionId\<close> is the identifier \<open>uuidv4()\<close> returned.\<close>

definition new_session :: "int \<Rightarrow> js_string \<Rightarrow> sessions \<Rightarrow> sessions \<times> response" where
  "new_session now sessionId sessions =
     (sessions(sessionId \<mapsto> new_session_object now), NewSessionReply sessionId)"

text \<open>
  \<open>POST /api/chat\<close>, in two parts.  \<open>chat_invoke\<close> is the part from the choice of the
  model on (a model of its own when the temperature is not 0.5): \<open>session\<close> is the object
  the handler fetched from the store, \<open>sessions\<close> the store when the chain is invoked,
  \<open>later\<close> the clock when the reply is sent.
\<close>

definition currentModel :: "session \<Rightarrow> chat_model" where
  "currentModel session =
     (if temperature session \<noteq> 0.5 then ChatOpenAI (temperature session) None else model)"

definition chat_invoke ::
  "backend \<Rightarrow> int \<Rightarrow> int \<Rightarrow> js_string \<Rightarrow> js_string \<Rightarrow> session \<Rightarrow> sessions
     \<Rightarrow> sessions \<times> response \<times> backend_call list" where
  "chat_invoke backend now later sessionId message session sessions =
     (let (sessions', result, calls) =
             invoke backend (currentModel session) now sessionId message
               (systemPrompt session) sessions
      in case result of
           None \<Rightarrow> (sessions', Status500 ErrorProcessingMessage, calls)
         | Some content \<Rightarrow> (sessions', ChatReply sessionId content later, calls))"

text \<open>The two updates of the session object by the overrides of the request.\<close>

fun set_systemPrompt_chat :: "json \<Rightarrow> session \<Rightarrow> session" where
  "set_systemPrompt_chat (JStr p) session =
     session\<lparr>systemPrompt := (if trim p \<noteq> [] then trim p else DEFAULT_SYSTEM_PROMPT)\<rparr>"
| "set_systemPrompt_chat v session = session"

fun set_temperature :: "json \<Rightarrow> session \<Rightarrow> session" where
  "set_temperature (JNum t) session = session\<lparr>temperature := t\<rparr>"
| "set_temperature v session = session"

definition apply_overrides :: "chat_body \<Rightarrow> session \<Rightarrow> session" where
  "apply_overrides body session =
     set_temperature (b_temperature body) (set_systemPrompt_chat (b_systemPrompt body) session)"

text \<open>
  The whole handler.  A truthy \<open>message\<close> that is not a string has no \<open>trim\<close>: the call
  throws a TypeError, which the \<open>catch\<close> turns into status 500.  A \<open>sessionId\<close> that is
  not a string is no key of the store.
\<close>

definition chat ::
  "backend \<Rightarrow> int \<Rightarrow> int \<Rightarrow> chat_body \<Rightarrow> sessions \<Rightarrow> sessions \<times> response \<times> backend_call list" where
  "chat backend now later body sessions =
     (if b_systemPrompt body \<noteq> JUndefined \<and> \<not> is_string (b_systemPrompt body)
      then (sessions, Status400 SystemPromptMustBeString, [])
      else if b_temperature body \<noteq> JUndefined \<and> temperature_rejected (b_temperature body)
      then (sessions, Status400 TemperatureMustBeNumberBetween0And2, [])
      else if \<not> truthy (b_sessionId body)
      then (sessions, Status400 SessionIdRequired, [])
      else if \<not> truthy (b_message body)
      then (sessions, Status400 MessageMustNotBeEmpty, [])
      else case b_message body of
        JStr message \<Rightarrow>
          if trim message = [] then (sessions, Status400 MessageMustNotBeEmpty, [])
          else (case b_sessionId body of
            JStr sessionId \<Rightarrow>
              (case sessions sessionId of
                 None \<Rightarrow> (sessions, Status404 SessionNotFoundOrExpired, [])
               | Some session0 \<Rightarrow>
                   (let session = apply_overrides body session0
                    in chat_invoke backend now later sessionId message session
                         (sessions(sessionId \<mapsto> session))))
          | _ \<Rightarrow> (sessions, Status404 SessionNotFoundOrExpired, []))
      | _ \<Rightarrow> (sessions, Status500 ErrorProcessingMessage, []))"

text \<open>
  The handler awaits the call to the model, and other requests are handled while it
  does.  Nothing else is awaited between its existence check and the history lookup of
  the chain, so no other request runs between those.  \<open>chat_begin\<close> is the handler up to
  the call to the model: the checks, the overrides, the lookup of the history and the
  prompt; it ends with the response sent or with the pending call.  \<open>chat_end\<close> is what
  runs when the call returns, on the store as it is by then: the pair is added to the
  history object that the lookup handed out, which is the history of the stored session
  as long as the session is in the store (identifiers are not used twice), and the
  reply is sent.
\<close>

datatype chat_step = Replied response | Pending js_string js_string backend_call

definition chat_begin :: "int \<Rightarrow> chat_body \<Rightarrow> sessions \<Rightarrow> sessions \<times> chat_step" where
  "chat_begin now body sessions =
     (if b_systemPrompt body \<noteq> JUndefined \<and> \<not> is_string (b_systemPrompt body)
      then (sessions, Replied (Status400 SystemPromptMustBeString))
      else if b_temperature body \<noteq> JUndefined \<and> temperature_rejected (b_temperature body)
      then (sessions, Replied (Status400 TemperatureMustBeNumberBetween0And2))
      else if \<not> truthy (b_sessionId body)
      then (sessions, Replied (Status400 SessionIdRequired))
      else if \<not> truthy (b_message body)
      then (sessions, Replied (Status400 MessageMustNotBeEmpty))
      else case b_message body of
        JStr message \<Rightarrow>
          if trim message = [] then (sessions, Replied (Status400 MessageMustNotBeEmpty))
          else (case b_sessionId body of
            JStr sessionId \<Rightarrow>
              (case sessions sessionId of
                 None \<Rightarrow> (sessions, Replied (Status404 SessionNotFoundOrExpired))
               | Some session0 \<Rightarrow>
                   (let session = apply_overrides body session0;
                        (sessions1, chat_history) =
                           getMessageHistory now sessionId (sessions(sessionId \<mapsto> session))
                    in (sessions1,
                        Pending sessionId message
                          (currentModel session,
                           prompt (systemPrompt session) chat_history message))))
          | _ \<Rightarrow> (sessions, Replied (Status404 SessionNotFoundOrExpired)))
      | _ \<Rightarrow> (sessions, Replied (Status500 ErrorProcessingMessage)))"

definition chat_end ::
  "backend \<Rightarrow> int \<Rightarrow> chat_step \<Rightarrow> sessions \<Rightarrow> sessions \<times> response \<times> backend_call list" where
  "chat_end backend later step sessions =
     (case step of
        Replied r \<Rightarrow> (sessions, r, [])
      | Pending sessionId message call \<Rightarrow>
          (case backend (fst call) (snd call) of
             None \<Rightarrow> (sessions, Status500 ErrorProcessingMessage, [call])
           | Some content \<Rightarrow>
               (addMessages sessionId [HumanMessage message, AIMessage content] sessions,
                ChatReply sessionId content later, [call])))"

text \<open>\<open>GET /api/session/:sessionId/exists\<close>.\<close>

definition session_exists :: "int \<Rightarrow> js_string \<Rightarrow> sessions \<Rightarrow> sessions \<times> response" where
  "session_exists now sessionId sessions =
     (case sessions sessionId of
        None \<Rightarrow> (sessions, NotExistsReply sessionId)
      | Some session \<Rightarrow>
          (sessions,
           ExistsReply sessionId (createdAt session) (lastActivity session)
             (length (messageHistory session))))"

text \<open>The call to the backend that the handler makes for an accepted request on the stored
  session \<open>s\<close>: the model chosen and the formatted prompt.\<close>

definition sent_prompt :: "chat_body \<Rightarrow> session \<Rightarrow> js_string \<Rightarrow> backend_call" where
  "sent_prompt body s message =
     (currentModel (apply_overrides body s),
      prompt (systemPrompt (apply_overrides body s)) (messageHistory s) message)"

text \<open>\<open>GET /api/session/:sessionId/history\<close>.\<close>

definition get_history :: "int \<Rightarrow> js_string \<Rightarrow> sessions \<Rightarrow> sessions \<times> response" where
  "get_history now sessionId sessions =
     (case sessions sessionId of
        None \<Rightarrow> (sessions, Status404 SessionNotFound)
      | Some session \<Rightarrow>
          (sessions,
           HistoryReply sessionId (length (messageHistory session)) (messageHistory session)
             (systemPrompt session) (temperature session) (createdAt session)
             (lastActivity session)))"

text \<open>\<open>DELETE /api/session/:sessionId/clear\<close>.\<close>

definition clear_history :: "int \<Rightarrow> js_string \<Rightarrow> sessions \<Rightarrow> sessions \<times> response" where
  "clear_history now sessionId sessions =
     (case sessions sessionId of
        None \<Rightarrow> (sessions, Status404 SessionNotFound)
      | Some session \<Rightarrow>
          (sessions(sessionId \<mapsto> session\<lparr>messageHistory := []\<rparr>), ClearReply sessionId))"

text \<open>\<open>PUT /api/session/:sessionId/config\<close>: each field is checked and then stored, the
  system prompt first.\<close>

fun set_systemPrompt_config :: "json \<Rightarrow> session \<Rightarrow> session" where
  "set_systemPrompt_config (JStr p) session = session\<lparr>systemPrompt := p\<rparr>"
| "set_systemPrompt_config v session = session"

definition update_config ::
  "int \<Rightarrow> js_string \<Rightarrow> json \<Rightarrow> json \<Rightarrow> sessions \<Rightarrow> sessions \<times> response" where
  "update_config now sessionId systemPrompt' temperature' sessions =
     (case sessions sessionId of
        None \<Rightarrow> (sessions, Status404 SessionNotFound)
      | Some session0 \<Rightarrow>
          if systemPrompt' \<noteq> JUndefined \<and> \<not> is_string systemPrompt'
          then (sessions, Status400 SystemPromptMustBeString)
          else
            (let session1 = set_systemPrompt_config systemPrompt' session0
             in if temperature' \<noteq> JUndefined \<and> temperature_rejected temperature'
                then (sessions(sessionId \<mapsto> session1),
                      Status400 TemperatureMustBeNumberBetween0And2)
                else
                  (let session2 = set_temperature temperature' session1
                   in (sessions(sessionId \<mapsto> session2),
                       ConfigReply sessionId (systemPrompt session2) (temperature session2)))))"


section \<open>The sweep of inactive sessions\<close>

text \<open>
  The callback of \<open>setInterval\<close>: every entry whose \<open>inactiveTime\<close>, in minutes, is above
  30 is deleted.  The difference of two dates is a whole number of milliseconds, and the
  two divisions are taken exactly (rounding to doubles does not change the comparison
  with 30 for a whole number of milliseconds).  \<open>sweep_period\<close> is the delay given to
  \<open>setInterval\<close>, in milliseconds.
\<close>

definition inactiveTime :: "int \<Rightarrow> session \<Rightarrow> real" where
  "inactiveTime now session = real_of_int (now - lastActivity session) / 1000 / 60"

definition sweep :: "int \<Rightarrow> sessions \<Rightarrow> sessions" where
  "sweep now sessions =
     (\<lambda>sessionId. case sessions sessionId of
        None \<Rightarrow> None
      | Some session \<Rightarrow> if inactiveTime now session > 30 then None else Some session)"

definition sweep_period :: int where
  "sweep_period = 5 * 60 * 1000"

section \<open>Sequences of turns\<close>

text \<open>
  Requests to \<open>POST /api/chat\<close> handled one after the other, each with its own backend
  behaviour and clock readings; the responses are collected in order.
\<close>

type_synonym turn = "backend \<times> int \<times> int \<times> chat_body"

definition turn_body :: "turn \<Rightarrow> chat_body" where
  "turn_body t = snd (snd (snd t))"

fun chat_turns :: "turn list \<Rightarrow> sessions \<Rightarrow> sessions \<times> response list" where
  "chat_turns [] sessions = (sessions, [])"
| "chat_turns (t # ts) sessions =
     (let (sessions1, r, calls) = chat (fst t) (fst (snd t)) (fst (snd (snd t))) (turn_body t) sessions;
          (sessions2, rs) = chat_turns ts sessions1
      in (sessions2, r # rs))"

fun is_ChatReply :: "response \<Rightarrow> bool" where
  "is_ChatReply (ChatReply sessionId content timestamp) = True"
| "is_ChatReply r = False"

text \<open>A history made of pairs: a human message, then an AI message.\<close>

fun alternates :: "message list \<Rightarrow> bool" where
  "alternates [] = True"
| "alternates (HumanMessage u # AIMessage a # rest) = alternates rest"
| "alternates ms = False"

text \<open>The pair a successful turn stands for: its message and the content of its reply.\<close>

fun turn_pair :: "json \<Rightarrow> response \<Rightarrow> message list" where
  "turn_pair (JStr message) (ChatReply sessionId content timestamp) =
     [HumanMessage message, AIMessage content]"
| "turn_pair v r = []"

text \<open>The pairs of a sequence of turns and their responses, in order.\<close>

fun turn_pairs :: "turn list \<Rightarrow> response list \<Rightarrow> message list" where
  "turn_pairs (t # ts) (r # rs) = turn_pair (b_message (turn_body t)) r @ turn_pairs ts rs"
| "turn_pairs ts rs = []"

section \<open>Example data\<close>

text \<open>A store with one fresh session \<open>'s1'\<close> created at time 0, the messages \<open>'hello'\<close> and
  \<open>'hi'\<close>, a backend that always throws and one that always answers \<open>'hi'\<close>.\<close>

definition sid0 :: js_string where
  "sid0 = [115, 49]"

definition hello :: js_string where
  "hello = [104, 101, 108, 108, 111]"

definition hi :: js_string where
  "hi = [104, 105]"

definition store0 :: sessions where
  "store0 = Map.empty(sid0 \<mapsto> new_session_object 0)"

definition failing_backend :: backend where
  "failing_backend m p = None"

definition hi_backend :: backend where
  "hi_backend m p = Some hi"

definition body0 :: chat_body where
  "body0 = \<lparr>b_sessionId = JStr sid0, b_message = JStr hello, b_temperature = JUndefined,
            b_systemPrompt = JUndefined\<rparr>"

text \<open>The request \<open>body0\<close> with the temperature override 1; the store after one turn
  \<open>'hello'\<close>, \<open>'hi'\<close> (the clock still at 0); two turns on the fresh session.\<close>

definition body_temp1 :: chat_body where
  "body_temp1 = body0\<lparr>b_temperature := JNum 1\<rparr>"

definition store1 :: sessions where
  "store1 = Map.empty(sid0 \<mapsto>
     (new_session_object 0)\<lparr>messageHistory := [HumanMessage hello, AIMessage hi]\<rparr>)"

definition two_turns :: "turn list" where
  "two_turns = [(hi_backend, 1000, 1001, body0), (hi_backend, 2000, 2001, body0)]"



section \<open>Basic facts about the handlers\<close>

lemmas example_defs =
  body0_def store0_def sid0_def hello_def hi_def failing_backend_def hi_backend_def
  new_session_object_def

lemma trim_Nil: "trim [] = []"
  by (simp add: trim_def)

lemma set_systemPrompt_chat_fields:
  "messageHistory (set_systemPrompt_chat v s) = messageHistory s"
  "temperature (set_systemPrompt_chat v s) = temperature s"
  "createdAt (set_systemPrompt_chat v s) = createdAt s"
  "lastActivity (set_systemPrompt_chat v s) = lastActivity s"
  by (cases v; simp)+

lemma set_temperature_fields:
  "messageHistory (set_temperature v s) = messageHistory s"
  "systemPrompt (set_temperature v s) = systemPrompt s"
  "createdAt (set_temperature v s) = createdAt s"
  "lastActivity (set_temperature v s) = lastActivity s"
  by (cases v; simp)+

lemma apply_overrides_fields:
  "messageHistory (apply_overrides body s) = messageHistory s"
  "createdAt (apply_overrides body s) = createdAt s"
  "lastActivity (apply_overrides body s) = lastActivity s"
  "systemPrompt (apply_overrides body s) = systemPrompt (set_systemPrompt_chat (b_systemPrompt body) s)"
  "temperature (apply_overrides body s) = temperature (set_temperature (b_temperature body) s)"
  by (simp_all add: apply_overrides_def set_systemPrompt_chat_fields set_temperature_fields)
    (cases "b_temperature body"; simp add: set_systemPrompt_chat_fields)



lemma invoke_present:
  "sessions sessionId = Some s \<Longrightarrow>
     invoke backend m now sessionId input sp sessions =
       (case backend m (prompt sp (messageHistory s) input) of
          None \<Rightarrow> (sessions(sessionId \<mapsto> s\<lparr>lastActivity := now\<rparr>), None,
                   [(m, prompt sp (messageHistory s) input)])
        | Some c \<Rightarrow>
            (sessions(sessionId \<mapsto>
               s\<lparr>lastActivity := now,
                  messageHistory := messageHistory s @ [HumanMessage input, AIMessage c]\<rparr>),
             Some c, [(m, prompt sp (messageHistory s) input)]))"
  by (simp add: invoke_def getMessageHistory_def addMessages_def split: option.splits)

text \<open>The second part of the chat handler on a store that holds \<open>s\<close> for the session.\<close>

lemma chat_invoke_stored:
  "chat_invoke backend now later sessionId message session (sessions(sessionId \<mapsto> s)) =
       (case backend (currentModel session)
               (prompt (systemPrompt session) (messageHistory s) message) of
          None \<Rightarrow> (sessions(sessionId \<mapsto> s\<lparr>lastActivity := now\<rparr>),
                   Status500 ErrorProcessingMessage,
                   [(currentModel session,
                     prompt (systemPrompt session) (messageHistory s) message)])
        | Some c \<Rightarrow>
            (sessions(sessionId \<mapsto>
               s\<lparr>lastActivity := now,
                  messageHistory := messageHistory s @ [HumanMessage message, AIMessage c]\<rparr>),
             ChatReply sessionId c later,
             [(currentModel session,
               prompt (systemPrompt session) (messageHistory s) message)]))"
  by (simp add: chat_invoke_def invoke_present split: option.splits)

lemmas chat_eval =
  chat_def Let_def trim_def is_ws_def apply_overrides_def chat_invoke_stored sent_prompt_def

text \<open>A request that passes every check of the chat handler reaches the chain.\<close>

lemma chat_accepted:
  assumes "b_sessionId body = JStr sessionId" and "sessionId \<noteq> []"
    and "b_message body = JStr message" and "trim message \<noteq> []"
    and "b_systemPrompt body = JUndefined \<or> is_string (b_systemPrompt body)"
    and "b_temperature body = JUndefined \<or> \<not> temperature_rejected (b_temperature body)"
    and "sessions sessionId = Some s"
  shows "chat backend now later body sessions =
           chat_invoke backend now later sessionId message (apply_overrides body s)
             (sessions(sessionId \<mapsto> apply_overrides body s))"
proof -
  from assms(4) have "message \<noteq> []"
    using trim_Nil by blast
  with assms show ?thesis
    by (auto simp: chat_def Let_def)
qed

text \<open>Only such a request does: a call to the backend means that every check passed.\<close>

lemma chat_calls_nonempty:
  assumes "snd (snd (chat backend now later body sessions)) \<noteq> []"
  shows "\<exists>sessionId message s.
           b_sessionId body = JStr sessionId \<and> sessionId \<noteq> [] \<and>
           b_message body = JStr message \<and> trim message \<noteq> [] \<and>
           (b_systemPrompt body = JUndefined \<or> is_string (b_systemPrompt body)) \<and>
           (b_temperature body = JUndefined \<or> \<not> temperature_rejected (b_temperature body)) \<and>
           sessions sessionId = Some s"
  using assms
  by (auto simp: chat_def Let_def split: if_splits json.splits option.splits)

lemma chat_accepted_eq:
  assumes "b_sessionId body = JStr sessionId" and "sessionId \<noteq> []"
    and "b_message body = JStr message" and "trim message \<noteq> []"
    and "b_systemPrompt body = JUndefined \<or> is_string (b_systemPrompt body)"
    and "b_temperature body = JUndefined \<or> \<not> temperature_rejected (b_temperature body)"
    and "sessions sessionId = Some s"
  shows "chat backend now later body sessions =
      (case backend (fst (sent_prompt body s message)) (snd (sent_prompt body s message)) of
         None \<Rightarrow> (sessions(sessionId \<mapsto> (apply_overrides body s)\<lparr>lastActivity := now\<rparr>),
                  Status500 ErrorProcessingMessage, [sent_prompt body s message])
       | Some c \<Rightarrow>
           (sessions(sessionId \<mapsto>
              (apply_overrides body s)\<lparr>lastActivity := now,
                 messageHistory := messageHistory s @ [HumanMessage message, AIMessage c]\<rparr>),
            ChatReply sessionId c later, [sent_prompt body s message]))"
proof -
  have "chat backend now later body sessions =
      chat_invoke backend now later sessionId message (apply_overrides body s)
        (sessions(sessionId \<mapsto> apply_overrides body s))"
    by (rule chat_accepted[where sessionId = sessionId and message = message and s = s])
       (rule assms)+
  then show ?thesis
    by (simp add: chat_invoke_stored sent_prompt_def apply_overrides_fields(1)
        split: option.splits)
qed

text \<open>A reply with status 200 also means that every check passed.\<close>

lemma chat_reply_accepted:
  assumes "fst (snd (chat backend now later body sessions)) = ChatReply a c t"
  shows "\<exists>sessionId message s.
           b_sessionId body = JStr sessionId \<and> sessionId \<noteq> [] \<and>
           b_message body = JStr message \<and> trim message \<noteq> [] \<and>
           (b_systemPrompt body = JUndefined \<or> is_string (b_systemPrompt body)) \<and>
           (b_temperature body = JUndefined \<or> \<not> temperature_rejected (b_temperature body)) \<and>
           sessions sessionId = Some s"
  using assms
  by (auto simp: chat_def Let_def split: if_splits json.splits option.splits)

text \<open>One successful turn appends its pair to the history of the session.\<close>

lemma chat_success:
  assumes "b_sessionId body = JStr sessionId" and "sessions sessionId = Some s"
    and "chat backend now later body sessions = (sessions', r, calls)"
    and "is_ChatReply r"
  shows "\<exists>s' message c. sessions' sessionId = Some s' \<and>
           turn_pair (b_message body) r = [HumanMessage message, AIMessage c] \<and>
           messageHistory s' = messageHistory s @ turn_pair (b_message body) r"
proof -
  from assms(4) obtain a c t where r: "r = ChatReply a c t"
    by (cases r) auto
  with assms(3) have "fst (snd (chat backend now later body sessions)) = ChatReply a c t"
    by simp
  from chat_reply_accepted[OF this] assms(1,2)
  obtain message where acc: "sessionId \<noteq> []" "b_message body = JStr message"
    "trim message \<noteq> []"
    "b_systemPrompt body = JUndefined \<or> is_string (b_systemPrompt body)"
    "b_temperature body = JUndefined \<or> \<not> temperature_rejected (b_temperature body)"
    by auto
  have eq: "chat backend now later body sessions =
      (case backend (fst (sent_prompt body s message)) (snd (sent_prompt body s message)) of
         None \<Rightarrow> (sessions(sessionId \<mapsto> (apply_overrides body s)\<lparr>lastActivity := now\<rparr>),
                  Status500 ErrorProcessingMessage, [sent_prompt body s message])
       | Some c \<Rightarrow>
           (sessions(sessionId \<mapsto>
              (apply_overrides body s)\<lparr>lastActivity := now,
                 messageHistory := messageHistory s @ [HumanMessage message, AIMessage c]\<rparr>),
            ChatReply sessionId c later, [sent_prompt body s message]))"
    by (rule chat_accepted_eq[where sessionId = sessionId and message = message and s = s])
       (rule assms(1,2) acc)+
  show ?thesis
    using assms(3) r acc(2) unfolding eq
    by (auto split: option.splits)
qed

lemma alternates_append: "alternates xs \<Longrightarrow> alternates ys \<Longrightarrow> alternates (xs @ ys)"
  by (induction xs rule: alternates.induct) simp_all

text \<open>Successful turns on one session, from any history: induction on the sequence, the
  store and the session generalised.\<close>

lemma chat_turns_history:
  assumes "\<forall>t\<in>set turns. b_sessionId (turn_body t) = JStr sessionId"
    and "sessions sessionId = Some s"
    and "chat_turns turns sessions = (sessions', rs)"
    and "\<forall>r\<in>set rs. is_ChatReply r"
  shows "\<exists>s'. sessions' sessionId = Some s' \<and>
           messageHistory s' = messageHistory s @ turn_pairs turns rs \<and>
           length (turn_pairs turns rs) = 2 * length turns \<and>
           alternates (turn_pairs turns rs)"
  using assms
proof (induction turns arbitrary: sessions s rs sessions')
  case Nil
  then show ?case by auto
next
  case (Cons t ts)
  obtain S1 r calls where step:
    "chat (fst t) (fst (snd t)) (fst (snd (snd t))) (turn_body t) sessions = (S1, r, calls)"
    by (metis prod_cases3)
  obtain S2 rs' where rest: "chat_turns ts S1 = (S2, rs')"
    by (metis surj_pair)
  from Cons.prems(3) step rest have res: "sessions' = S2" "rs = r # rs'"
    by simp_all
  from Cons.prems(4) res have ok: "is_ChatReply r" "\<forall>r\<in>set rs'. is_ChatReply r"
    by simp_all
  from Cons.prems(1) have ids: "b_sessionId (turn_body t) = JStr sessionId"
    "\<forall>t\<in>set ts. b_sessionId (turn_body t) = JStr sessionId"
    by simp_all
  from chat_success[OF ids(1) Cons.prems(2) step ok(1)]
  obtain s1 message c where s1: "S1 sessionId = Some s1"
    "turn_pair (b_message (turn_body t)) r = [HumanMessage message, AIMessage c]"
    "messageHistory s1 = messageHistory s @ turn_pair (b_message (turn_body t)) r"
    by blast
  from Cons.IH[OF ids(2) s1(1) rest ok(2)]
  obtain s' where s': "S2 sessionId = Some s'"
    "messageHistory s' = messageHistory s1 @ turn_pairs ts rs'"
    "length (turn_pairs ts rs') = 2 * length ts"
    "alternates (turn_pairs ts rs')"
    by blast
  from s' s1 res show ?case
    by simp
qed

lemma two_turns_eval:
  "chat_turns two_turns store0 =
     (store0(sid0 \<mapsto> (new_session_object 0)\<lparr>lastActivity := 2000,
        messageHistory := [HumanMessage hello, AIMessage hi, HumanMessage hello, AIMessage hi]\<rparr>),
      [ChatReply sid0 hi 1001, ChatReply sid0 hi 2001])"
  by (simp add: two_turns_def turn_body_def example_defs chat_eval)

lemma chat_failing_eval:
  "chat failing_backend 1000 1001 body0 store0 =
     (store0(sid0 \<mapsto> (new_session_object 0)\<lparr>lastActivity := 1000\<rparr>),
      Status500 ErrorProcessingMessage, [sent_prompt body0 (new_session_object 0) hello])"
  by (simp add: example_defs chat_eval)

lemma chat_hi_eval:
  "chat hi_backend 1000 1001 body0 store0 =
     (store0(sid0 \<mapsto> (new_session_object 0)\<lparr>lastActivity := 1000,
        messageHistory := [HumanMessage hello, AIMessage hi]\<rparr>),
      ChatReply sid0 hi 1001,
      [(model, [SystemMessage DEFAULT_SYSTEM_PROMPT, HumanMessage hello])])"
  by (simp add: example_defs chat_eval currentModel_def prompt_def)

section \<open>The two parts of a turn\<close>

text \<open>Handled with no other request in between, the two parts are the chat handler.\<close>

lemma chat_split:
  "chat backend now later body sessions =
     chat_end backend later (snd (chat_begin now body sessions))
       (fst (chat_begin now body sessions))"
  by (simp add: chat_def chat_begin_def chat_end_def chat_invoke_def invoke_def Let_def
      split: json.splits option.splits prod.splits)








section \<open>The history lookup of the chain and missing sessions\<close>




section \<open>A turn whose backend call fails\<close>

text \<open>
  C1, as stated, fails: the overrides of a request are stored in the session before the
  chain is invoked, and nothing takes them back when the backend throws.  On the fresh
  session \<open>'s1'\<close> (temperature 0.5), a turn with the temperature override 1 and a backend
  that throws answers with status 500 after calling the backend, and the stored
  temperature is 1 afterwards.
\<close>

theorem chat_backend_failure_override_persists:
  "fst (snd (chat failing_backend 1000 1001 body_temp1 store0)) =
     Status500 ErrorProcessingMessage \<and>
   snd (snd (chat failing_backend 1000 1001 body_temp1 store0)) \<noteq> [] \<and>
   map_option temperature (store0 sid0) = Some 0.5 \<and>
   map_option temperature (fst (chat failing_backend 1000 1001 body_temp1 store0) sid0) = Some 1"
  by (simp add: body_temp1_def example_defs chat_eval)

text \<open>
  C1, amended.  For every chat request on an existing session whose call to the backend
  fails, the response is the status 500 error and only this session changes in the
  store: its history and \<open>createdAt\<close> are as before the turn, its system prompt and
  temperature are those after the overrides of the request (as before the turn when the
  request carries none), and its \<open>lastActivity\<close> is the time of the turn.
\<close>

theorem chat_backend_failure_keeps_history:
  assumes "b_sessionId body = JStr sessionId" and "sessions sessionId = Some s"
    and "chat backend now later body sessions = (sessions', r, calls)"
    and "calls = [(m, p)]" and "backend m p = None"
  shows "r = Status500 ErrorProcessingMessage \<and>
         (\<exists>s'. sessions' = sessions(sessionId \<mapsto> s') \<and>
            messageHistory s' = messageHistory s \<and>
            systemPrompt s' = systemPrompt (set_systemPrompt_chat (b_systemPrompt body) s) \<and>
            temperature s' = temperature (set_temperature (b_temperature body) s) \<and>
            (b_systemPrompt body = JUndefined \<longrightarrow> systemPrompt s' = systemPrompt s) \<and>
            (b_temperature body = JUndefined \<longrightarrow> temperature s' = temperature s) \<and>
            createdAt s' = createdAt s \<and> lastActivity s' = now)"
proof -
  from assms(3,4) have "snd (snd (chat backend now later body sessions)) \<noteq> []"
    by simp
  from chat_calls_nonempty[OF this] assms(1,2)
  obtain message where acc: "sessionId \<noteq> []" "b_message body = JStr message"
    "trim message \<noteq> []"
    "b_systemPrompt body = JUndefined \<or> is_string (b_systemPrompt body)"
    "b_temperature body = JUndefined \<or> \<not> temperature_rejected (b_temperature body)"
    by auto
  have eq: "chat backend now later body sessions =
      (case backend (fst (sent_prompt body s message)) (snd (sent_prompt body s message)) of
         None \<Rightarrow> (sessions(sessionId \<mapsto> (apply_overrides body s)\<lparr>lastActivity := now\<rparr>),
                  Status500 ErrorProcessingMessage, [sent_prompt body s message])
       | Some c \<Rightarrow>
           (sessions(sessionId \<mapsto>
              (apply_overrides body s)\<lparr>lastActivity := now,
                 messageHistory := messageHistory s @ [HumanMessage message, AIMessage c]\<rparr>),
            ChatReply sessionId c later, [sent_prompt body s message]))"
    by (rule chat_accepted_eq[where sessionId = sessionId and message = message and s = s])
       (rule assms(1,2) acc)+
  have res: "r = Status500 ErrorProcessingMessage"
    "sessions' = sessions(sessionId \<mapsto> (apply_overrides body s)\<lparr>lastActivity := now\<rparr>)"
    using assms(3,4,5) unfolding eq by (auto split: option.splits)
  let ?s' = "(apply_overrides body s)\<lparr>lastActivity := now\<rparr>"
  have "messageHistory ?s' = messageHistory s"
    "systemPrompt ?s' = systemPrompt (set_systemPrompt_chat (b_systemPrompt body) s)"
    "temperature ?s' = temperature (set_temperature (b_temperature body) s)"
    "b_systemPrompt body = JUndefined \<longrightarrow> systemPrompt ?s' = systemPrompt s"
    "b_temperature body = JUndefined \<longrightarrow> temperature ?s' = temperature s"
    "createdAt ?s' = createdAt s" "lastActivity ?s' = now"
    by (simp_all add: apply_overrides_fields)
  with res show ?thesis
    by blast
qed

theorem chat_backend_failure_keeps_history_witness:
  "b_sessionId body0 = JStr sid0 \<and> store0 sid0 = Some (new_session_object 0) \<and>
   failing_backend (fst (sent_prompt body0 (new_session_object 0) hello))
     (snd (sent_prompt body0 (new_session_object 0) hello)) = None \<and>
   fst (snd (chat failing_backend 1000 1001 body0 store0)) = Status500 ErrorProcessingMessage \<and>
   (\<exists>s'. fst (chat failing_backend 1000 1001 body0 store0) = store0(sid0 \<mapsto> s') \<and>
      messageHistory s' = [] \<and> systemPrompt s' = DEFAULT_SYSTEM_PROMPT \<and>
      temperature s' = 0.5 \<and> createdAt s' = 0 \<and> lastActivity s' = 1000)"
proof -
  have a: "b_sessionId body0 = JStr sid0"
    by (simp add: body0_def)
  have b: "store0 sid0 = Some (new_session_object 0)"
    by (simp add: store0_def)
  have d: "failing_backend (fst (sent_prompt body0 (new_session_object 0) hello))
             (snd (sent_prompt body0 (new_session_object 0) hello)) = None"
    by (simp add: failing_backend_def)
  have e: "b_systemPrompt body0 = JUndefined" "b_temperature body0 = JUndefined"
    by (simp_all add: body0_def)
  have f: "messageHistory (new_session_object 0) = []"
    "systemPrompt (new_session_object 0) = DEFAULT_SYSTEM_PROMPT"
    "temperature (new_session_object 0) = 0.5" "createdAt (new_session_object 0) = 0"
    by (simp_all add: new_session_object_def)
  from chat_backend_failure_keeps_history[OF a b chat_failing_eval _ d] a b d e f
  show ?thesis
    by (auto simp: chat_failing_eval)
qed

section \<open>Sequences of successful turns\<close>

text \<open>
  C2.  For every session with an empty history and every sequence of \<open>N\<close> chat requests on
  it, handled one after the other and all answered with a reply: the history then has
  length \<open>2 * N\<close>, it alternates human and AI messages starting with a human message, and
  it consists of the pairs of the turns in order, each the message of the request and
  the content of its reply.
\<close>

theorem successful_turns_history:
  assumes "sessions sessionId = Some s" and "messageHistory s = []"
    and "\<forall>t\<in>set turns. b_sessionId (turn_body t) = JStr sessionId"
    and "chat_turns turns sessions = (sessions', rs)"
    and "\<forall>r\<in>set rs. is_ChatReply r"
  shows "\<exists>s'. sessions' sessionId = Some s' \<and>
           length (messageHistory s') = 2 * length turns \<and>
           alternates (messageHistory s') \<and>
           messageHistory s' = turn_pairs turns rs"
  using chat_turns_history[OF assms(3) assms(1) assms(4) assms(5)] assms(2)
  by auto

theorem successful_turns_history_witness:
  "store0 sid0 = Some (new_session_object 0) \<and> messageHistory (new_session_object 0) = [] \<and>
   snd (chat_turns two_turns store0) = [ChatReply sid0 hi 1001, ChatReply sid0 hi 2001] \<and>
   (\<exists>s'. fst (chat_turns two_turns store0) sid0 = Some s' \<and>
      length (messageHistory s') = 4 \<and> alternates (messageHistory s') \<and>
      messageHistory s' =
        [HumanMessage hello, AIMessage hi, HumanMessage hello, AIMessage hi])"
proof -
  have a: "store0 sid0 = Some (new_session_object 0)"
    by (simp add: store0_def)
  have b: "messageHistory (new_session_object 0) = []"
    by (simp add: new_session_object_def)
  have c: "\<forall>t\<in>set two_turns. b_sessionId (turn_body t) = JStr sid0"
    by (simp add: two_turns_def turn_body_def body0_def)
  have d: "\<forall>r\<in>set [ChatReply sid0 hi 1001, ChatReply sid0 hi 2001]. is_ChatReply r"
    by simp
  have e: "turn_pairs two_turns [ChatReply sid0 hi 1001, ChatReply sid0 hi 2001] =
      [HumanMessage hello, AIMessage hi, HumanMessage hello, AIMessage hi]"
    by (simp add: two_turns_def turn_body_def body0_def)
  have f: "length two_turns = 2"
    by (simp add: two_turns_def)
  from successful_turns_history[OF a b c two_turns_eval d] a b e f
  show ?thesis
    by (auto simp: two_turns_eval)
qed

section \<open>Temperatures out of range\<close>

text \<open>
  C3.  A field \<open>temperature\<close> that is present and is not a number in \<open>[0, 2]\<close> (a number
  below 0 or above 2, or a value that is no number) is rejected with status 400 by both
  handlers that take it.  The chat handler leaves the whole store as it was and does not
  call the backend; the configuration update of an existing session leaves its stored
  temperature as it was.
\<close>

theorem invalid_temperature_rejected:
  assumes "t \<noteq> JUndefined" and "\<forall>x. t = JNum x \<longrightarrow> x < 0 \<or> 2 < x"
  shows "(b_temperature body = t \<longrightarrow>
            (\<exists>e. chat backend now later body sessions = (sessions, Status400 e, []))) \<and>
         (sessions sessionId = Some s \<longrightarrow>
            (\<exists>sessions' e.
               update_config now sessionId sp t sessions = (sessions', Status400 e) \<and>
               map_option temperature (sessions' sessionId) = Some (temperature s)))"
proof -
  from assms have rej: "temperature_rejected t"
    by (cases t) auto
  have 1: "\<exists>e. chat backend now later body sessions = (sessions, Status400 e, [])"
    if "b_temperature body = t"
    using that assms(1) rej by (simp add: chat_def)
  have 2: "\<exists>sessions' e.
             update_config now sessionId sp t sessions = (sessions', Status400 e) \<and>
             map_option temperature (sessions' sessionId) = Some (temperature s)"
    if "sessions sessionId = Some s"
    using that assms(1) rej
    by (cases sp) (simp_all add: update_config_def)
  from 1 2 show ?thesis by blast
qed

theorem invalid_temperature_rejected_witness:
  "JNum (5 / 2) \<noteq> JUndefined \<and> JStr hello \<noteq> JUndefined \<and>
   store0 sid0 = Some (new_session_object 0) \<and>
   (\<exists>e. chat hi_backend 1000 1001 (body0\<lparr>b_temperature := JNum (5 / 2)\<rparr>) store0 =
          (store0, Status400 e, [])) \<and>
   (\<exists>sessions' e.
      update_config 1000 sid0 JUndefined (JStr hello) store0 = (sessions', Status400 e) \<and>
      map_option temperature (sessions' sid0) = Some 0.5)"
proof -
  have a: "JNum (5 / 2) \<noteq> JUndefined" "\<forall>x. JNum (5 / 2) = JNum x \<longrightarrow> x < 0 \<or> 2 < x"
    by simp_all
  have b: "JStr hello \<noteq> JUndefined" "\<forall>x. JStr hello = JNum x \<longrightarrow> x < 0 \<or> 2 < x"
    by simp_all
  have c: "store0 sid0 = Some (new_session_object 0)"
    by (simp add: store0_def)
  have d: "temperature (new_session_object 0) = 0.5"
    by (simp add: new_session_object_def)
  from invalid_temperature_rejected[OF a,
         where body = "body0\<lparr>b_temperature := JNum (5 / 2)\<rparr>" and backend = hi_backend
           and now = 1000 and later = 1001 and sessions = store0]
       invalid_temperature_rejected[OF b,
         where sessions = store0 and sessionId = sid0 and s = "new_session_object 0"
           and now = 1000 and sp = JUndefined]
       a(1) b(1) c d
  show ?thesis
    by simp
qed

section \<open>The system prompt after a configuration update\<close>

text \<open>
  C4 does not hold for the configuration update.  \<open>PUT /api/session/s1/config\<close> with the
  body \<open>{"systemPrompt": ""}\<close> on the fresh session \<open>'s1'\<close> stores the empty string and
  reports it in its reply, where the chat handler given the same override falls back
  to the built-in prompt.
\<close>

theorem update_config_stores_empty_systemPrompt:
  "update_config 1000 sid0 (JStr []) JUndefined store0 =
     (store0(sid0 \<mapsto> (new_session_object 0)\<lparr>systemPrompt := []\<rparr>),
      ConfigReply sid0 [] 0.5) \<and>
   map_option systemPrompt (fst (update_config 1000 sid0 (JStr []) JUndefined store0) sid0) =
     Some [] \<and>
   map_option systemPrompt
     (fst (chat hi_backend 1000 1001 (body0\<lparr>b_systemPrompt := JStr []\<rparr>) store0) sid0) =
     Some DEFAULT_SYSTEM_PROMPT"
  by (simp add: update_config_def example_defs chat_eval)

section \<open>The order of checks and updates in a configuration update\<close>

text \<open>
  C5 does not hold: the configuration update stores the system prompt before it checks
  the temperature.  \<open>PUT /api/session/s1/config\<close> with the body
  \<open>{"systemPrompt": "hello", "temperature": 3}\<close> on the fresh session \<open>'s1'\<close> answers with
  status 400 and has stored \<open>'hello'\<close> as the system prompt, where the chat handler given
  the same two fields answers with status 400 and leaves the store as it was.
\<close>

theorem update_config_mutates_before_temperature_check:
  "update_config 1000 sid0 (JStr hello) (JNum 3) store0 =
     (store0(sid0 \<mapsto> (new_session_object 0)\<lparr>systemPrompt := hello\<rparr>),
      Status400 TemperatureMustBeNumberBetween0And2) \<and>
   map_option systemPrompt (store0 sid0) = Some DEFAULT_SYSTEM_PROMPT \<and>
   map_option systemPrompt (fst (update_config 1000 sid0 (JStr hello) (JNum 3) store0) sid0) =
     Some hello \<and>
   chat hi_backend 1000 1001
       (body0\<lparr>b_systemPrompt := JStr hello, b_temperature := JNum 3\<rparr>) store0 =
     (store0, Status400 TemperatureMustBeNumberBetween0And2, [])"
  by (simp add: update_config_def example_defs chat_eval)

section \<open>The sweep\<close>

text \<open>
  C6.  For a session in the store, a pass of the sweep at time \<open>now\<close> deletes it exactly
  when \<open>now - lastActivity\<close> is above 30 minutes (1800000 milliseconds), and otherwise
  leaves it as it is; a session active 29 minutes ago stays.  The period of the sweep
  is 5 minutes (300000 milliseconds).
\<close>

theorem sweep_deletes_iff_inactive:
  assumes "sessions sessionId = Some s"
  shows "(sweep now sessions sessionId = None \<longleftrightarrow> now - lastActivity s > 30 * 60 * 1000) \<and>
         (sweep now sessions sessionId \<noteq> None \<longrightarrow> sweep now sessions sessionId = Some s) \<and>
         (now - lastActivity s = 29 * 60 * 1000 \<longrightarrow> sweep now sessions sessionId = Some s) \<and>
         sweep_period = 300000"
proof -
  have "inactiveTime now s > 30 \<longleftrightarrow> now - lastActivity s > 30 * 60 * 1000"
    by (auto simp: inactiveTime_def field_simps)
  with assms show ?thesis
    by (auto simp: sweep_def sweep_period_def)
qed

theorem sweep_deletes_iff_inactive_witness:
  "store0 sid0 = Some (new_session_object 0) \<and>
   sweep 1860000 store0 sid0 = None \<and>
   sweep 1800001 store0 sid0 = None \<and>
   sweep 1800000 store0 sid0 = Some (new_session_object 0) \<and>
   sweep 1740000 store0 sid0 = Some (new_session_object 0)"
proof -
  have a: "store0 sid0 = Some (new_session_object 0)"
    by (simp add: store0_def)
  have b: "lastActivity (new_session_object 0) = 0"
    by (simp add: new_session_object_def)
  note at = sweep_deletes_iff_inactive[where sessions = store0 and sessionId = sid0, OF a]
  have "(sweep 1860000 store0 sid0 = None) =
      (30 * 60 * 1000 < 1860000 - lastActivity (new_session_object 0))"
    by (rule at[THEN conjunct1])
  then have 1: "sweep 1860000 store0 sid0 = None"
    unfolding b by simp
  have "(sweep 1800001 store0 sid0 = None) =
      (30 * 60 * 1000 < 1800001 - lastActivity (new_session_object 0))"
    by (rule at[THEN conjunct1])
  then have 2: "sweep 1800001 store0 sid0 = None"
    unfolding b by simp
  have "(sweep 1800000 store0 sid0 = None) =
      (30 * 60 * 1000 < 1800000 - lastActivity (new_session_object 0))"
    by (rule at[THEN conjunct1])
  then have "sweep 1800000 store0 sid0 \<noteq> None"
    unfolding b by simp
  with at[THEN conjunct2, THEN conjunct1, of 1800000]
  have 3: "sweep 1800000 store0 sid0 = Some (new_session_object 0)"
    by blast
  have "1740000 - lastActivity (new_session_object 0) = 29 * 60 * 1000"
    unfolding b by simp
  with at[THEN conjunct2, THEN conjunct2, THEN conjunct1, of 1740000]
  have 4: "sweep 1740000 store0 sid0 = Some (new_session_object 0)"
    by blast
  from a 1 2 3 4 show ?thesis
    by blast
qed

section \<open>Clearing the history\<close>

text \<open>
  C7, as stated, fails in one part: the handler that clears the history never writes
  \<open>lastActivity\<close>.  On a session last active at time 0 that holds one pair, a clear at
  time 1000 succeeds and \<open>lastActivity\<close> is still 0.
\<close>

theorem clear_history_keeps_lastActivity:
  "snd (clear_history 1000 sid0 store1) = ClearReply sid0 \<and>
   map_option lastActivity (store1 sid0) = Some 0 \<and>
   map_option lastActivity (fst (clear_history 1000 sid0 store1) sid0) = Some 0 \<and>
   map_option lastActivity (fst (clear_history 1000 sid0 store1) sid0) \<noteq> Some 1000"
  by (simp add: clear_history_def store1_def new_session_object_def)

text \<open>
  C7, amended.  For every existing session, clearing the history sets the history to
  empty and leaves the system prompt, the temperature, \<open>createdAt\<close> and \<open>lastActivity\<close> as
  they were; a later request for the history reports \<open>messageCount = 0\<close>, no messages,
  and the system prompt, temperature and timestamps from before the clear.
\<close>

theorem clear_history_resets_history:
  assumes "sessions sessionId = Some s"
  shows "clear_history now sessionId sessions =
           (sessions(sessionId \<mapsto> s\<lparr>messageHistory := []\<rparr>), ClearReply sessionId) \<and>
         snd (get_history later sessionId (fst (clear_history now sessionId sessions))) =
           HistoryReply sessionId 0 [] (systemPrompt s) (temperature s) (createdAt s)
             (lastActivity s)"
  using assms by (simp add: clear_history_def get_history_def)

theorem clear_history_resets_history_witness:
  "store1 sid0 =
     Some ((new_session_object 0)\<lparr>messageHistory := [HumanMessage hello, AIMessage hi]\<rparr>) \<and>
   clear_history 1000 sid0 store1 = (store0, ClearReply sid0) \<and>
   snd (get_history 2000 sid0 (fst (clear_history 1000 sid0 store1))) =
     HistoryReply sid0 0 [] DEFAULT_SYSTEM_PROMPT 0.5 0 0"
proof -
  have a: "store1 sid0 =
      Some ((new_session_object 0)\<lparr>messageHistory := [HumanMessage hello, AIMessage hi]\<rparr>)"
    by (simp add: store1_def)
  have b: "store1(sid0 \<mapsto> (new_session_object 0)\<lparr>messageHistory := [HumanMessage hello,
      AIMessage hi], messageHistory := []\<rparr>) = store0"
    by (simp add: store1_def store0_def new_session_object_def)
  note at = clear_history_resets_history[where sessions = store1 and sessionId = sid0
           and now = 1000 and later = 2000, OF a]
  from at[THEN conjunct1] b
  have 1: "clear_history 1000 sid0 store1 = (store0, ClearReply sid0)"
    by simp
  from at[THEN conjunct2]
  have 2: "snd (get_history 2000 sid0 (fst (clear_history 1000 sid0 store1))) =
     HistoryReply sid0 0 [] DEFAULT_SYSTEM_PROMPT 0.5 0 0"
    by (simp add: new_session_object_def)
  from a 1 2 show ?thesis
    by blast
qed

section \<open>The prompt sent to the backend\<close>

text \<open>
  C8.  For every existing session and every chat request on it with the message
  \<open>message\<close> that calls the backend, there is exactly one call, and its prompt is the
  system message with the system prompt of the session (the one in force for this turn,
  which is the stored one when the request carries no override), then the history of
  the session as it was, in order, then the human message \<open>message\<close>.  The system
  message is first whatever the history is.  The prompt is the value of the function
  \<open>prompt\<close> on the system prompt, the history and the message: formatting reads and
  writes nothing else.
\<close>

theorem chat_prompt_sent:
  assumes "b_sessionId body = JStr sessionId" and "sessions sessionId = Some s"
    and "b_message body = JStr message"
    and "chat backend now later body sessions = (sessions', r, calls)"
    and "calls \<noteq> []"
  shows "\<exists>s' m. sessions' sessionId = Some s' \<and>
           systemPrompt s' = systemPrompt (set_systemPrompt_chat (b_systemPrompt body) s) \<and>
           calls = [(m, [SystemMessage (systemPrompt s')] @ messageHistory s @
                          [HumanMessage message])] \<and>
           snd (hd calls) = prompt (systemPrompt s') (messageHistory s) message \<and>
           hd (snd (hd calls)) = SystemMessage (systemPrompt s')"
proof -
  from assms(4,5) have "snd (snd (chat backend now later body sessions)) \<noteq> []"
    by simp
  from chat_calls_nonempty[OF this] assms(1,2,3)
  have acc: "sessionId \<noteq> []" "trim message \<noteq> []"
    "b_systemPrompt body = JUndefined \<or> is_string (b_systemPrompt body)"
    "b_temperature body = JUndefined \<or> \<not> temperature_rejected (b_temperature body)"
    by auto
  have eq: "chat backend now later body sessions =
      (case backend (fst (sent_prompt body s message)) (snd (sent_prompt body s message)) of
         None \<Rightarrow> (sessions(sessionId \<mapsto> (apply_overrides body s)\<lparr>lastActivity := now\<rparr>),
                  Status500 ErrorProcessingMessage, [sent_prompt body s message])
       | Some c \<Rightarrow>
           (sessions(sessionId \<mapsto>
              (apply_overrides body s)\<lparr>lastActivity := now,
                 messageHistory := messageHistory s @ [HumanMessage message, AIMessage c]\<rparr>),
            ChatReply sessionId c later, [sent_prompt body s message]))"
    by (rule chat_accepted_eq[where sessionId = sessionId and message = message and s = s])
       (rule assms(1,2,3) acc)+
  show ?thesis
  proof (cases "backend (fst (sent_prompt body s message)) (snd (sent_prompt body s message))")
    case None
    with assms(4) eq show ?thesis
      by (auto simp: sent_prompt_def prompt_def apply_overrides_fields)
  next
    case (Some c)
    with assms(4) eq show ?thesis
      by (auto simp: sent_prompt_def prompt_def apply_overrides_fields)
  qed
qed

theorem chat_prompt_sent_witness:
  "b_sessionId body0 = JStr sid0 \<and> store0 sid0 = Some (new_session_object 0) \<and>
   b_message body0 = JStr hello \<and>
   snd (snd (chat hi_backend 1000 1001 body0 store0)) =
     [(model, [SystemMessage DEFAULT_SYSTEM_PROMPT, HumanMessage hello])] \<and>
   (\<exists>s'. fst (chat hi_backend 1000 1001 body0 store0) sid0 = Some s' \<and>
      systemPrompt s' = DEFAULT_SYSTEM_PROMPT)"
proof -
  have a: "b_sessionId body0 = JStr sid0"
    by (simp add: body0_def)
  have b: "store0 sid0 = Some (new_session_object 0)"
    by (simp add: store0_def)
  have c: "b_message body0 = JStr hello"
    by (simp add: body0_def)
  have d: "[(model, [SystemMessage DEFAULT_SYSTEM_PROMPT, HumanMessage hello])] \<noteq> []"
    by simp
  have e: "b_systemPrompt body0 = JUndefined"
    "systemPrompt (new_session_object 0) = DEFAULT_SYSTEM_PROMPT"
    by (simp_all add: body0_def new_session_object_def)
  from chat_prompt_sent[OF a b c chat_hi_eval d] a b c e
  show ?thesis
    by (auto simp: chat_hi_eval)
qed

section \<open>Reading the history\<close>

text \<open>
  C9, as stated, fails: the handler that returns the history of a session does not write
  \<open>lastActivity\<close>.  On the session \<open>'s1'\<close> last active at time 0, a request for the history
  at time 1000 succeeds, reports \<open>lastActivity = 0\<close>, and the stored \<open>lastActivity\<close> is
  still 0.
\<close>

theorem get_history_lastActivity_unchanged:
  "snd (get_history 1000 sid0 store0) =
     HistoryReply sid0 0 [] DEFAULT_SYSTEM_PROMPT 0.5 0 0 \<and>
   map_option lastActivity (fst (get_history 1000 sid0 store0) sid0) = Some 0 \<and>
   map_option lastActivity (fst (get_history 1000 sid0 store0) sid0) \<noteq> Some 1000"
  by (simp add: get_history_def store0_def new_session_object_def)

text \<open>
  C9, amended.  For every existing session, the read access made in a turn, the history
  lookup \<open>getMessageHistory\<close>, updates \<open>lastActivity\<close> to the time of the lookup and changes
  nothing else.  A successful request for the history does not update \<open>lastActivity\<close>,
  and neither does the exists probe: each reports the stored fields, \<open>lastActivity\<close>
  included, and both leave every store as it is.
\<close>

theorem read_accesses_and_lastActivity:
  "fst (get_history now sessionId sessions) = sessions \<and>
   fst (session_exists now sessionId sessions) = sessions \<and>
   (sessions sessionId = Some s \<longrightarrow>
      snd (get_history now sessionId sessions) =
        HistoryReply sessionId (length (messageHistory s)) (messageHistory s) (systemPrompt s)
          (temperature s) (createdAt s) (lastActivity s) \<and>
      snd (session_exists now sessionId sessions) =
        ExistsReply sessionId (createdAt s) (lastActivity s) (length (messageHistory s)) \<and>
      getMessageHistory now sessionId sessions =
        (sessions(sessionId \<mapsto> s\<lparr>lastActivity := now\<rparr>), messageHistory s))"
  by (simp add: get_history_def session_exists_def getMessageHistory_def split: option.splits)

theorem read_accesses_and_lastActivity_witness:
  "store0 sid0 = Some (new_session_object 0) \<and>
   fst (get_history 1000 sid0 store0) = store0 \<and>
   fst (session_exists 1000 sid0 store0) = store0 \<and>
   snd (get_history 1000 sid0 store0) =
     HistoryReply sid0 0 [] DEFAULT_SYSTEM_PROMPT 0.5 0 0 \<and>
   snd (session_exists 1000 sid0 store0) = ExistsReply sid0 0 0 0 \<and>
   getMessageHistory 1000 sid0 store0 =
     (store0(sid0 \<mapsto> (new_session_object 0)\<lparr>lastActivity := 1000\<rparr>), [])"
proof -
  have a: "store0 sid0 = Some (new_session_object 0)"
    by (simp add: store0_def)
  from read_accesses_and_lastActivity[of 1000 sid0 store0 "new_session_object 0"] a
  show ?thesis
    by (simp add: new_session_object_def)
qed

end
